theory Spec2Isabelle
  imports Main
begin

section \<open>Data model\<close>

text \<open>
  The two migration bodies of the repository (\<open>migrations/202203191_drop_diagnostics_user.go\<close>
  and the file registering \<open>20221016-drop_rank_column\<close>) talk to the database only through
  the handle \<open>db\<close>: the ledger helpers \<open>hasRun\<close> and \<open>setHasRun\<close>, and the methods
  \<open>HasTable\<close>, \<open>HasColumn\<close>, \<open>DropConstraint\<close> and \<open>DropColumn\<close> of \<open>db.Migrator()\<close>.
  The entities they name are \<open>models.Diagnostics\<close> and \<open>models.LeaderboardItem\<close>.
\<close>

datatype model = Diagnostics | LeaderboardItem

type_synonym error = string

text \<open>Of \<open>config.Config\<close> only the field read by \<open>main\<close> (line 167) matters here.\<close>

record config =
  SkipMigrations :: bool

text \<open>
  Every call that leaves a migration body, and every log line, is recorded in a trace, so
  that "which calls were made, and in which order" is a property of the result.
\<close>

datatype event =
    HasRunCall string
  | SetHasRunCall string
  | HasTableCall model
  | HasColumnCall model string
  | HasConstraintCall model string
  | DropConstraintCall model string
  | DropColumnCall model string
  | LogInfo string
  | LogWarn string
  | RunCall
  | AutoMigrateCall
  | OutcomeLogged string "error option"

text \<open>
  The database handle. Its behaviour is not part of the repository's sources (the migrator is
  an interface of the ORM), so it is a parameter: a record of operations over an arbitrary
  type \<open>'db\<close> of database states. The field names are those of the specification
  (Ledger, section 4.1; Schema Introspector, section 4.2). A mutation returns the error it
  raised, if any, together with the database it leaves behind.
\<close>

record 'db env =
  hasCompleted :: "string \<Rightarrow> 'db \<Rightarrow> bool"
  markCompleted :: "string \<Rightarrow> 'db \<Rightarrow> error option \<times> 'db"
  tableExists :: "model \<Rightarrow> 'db \<Rightarrow> bool"
  columnExists :: "model \<Rightarrow> string \<Rightarrow> 'db \<Rightarrow> bool"
  constraintExists :: "model \<Rightarrow> string \<Rightarrow> 'db \<Rightarrow> bool"
  dropConstraint :: "model \<Rightarrow> string \<Rightarrow> 'db \<Rightarrow> error option \<times> 'db"
  dropColumn :: "model \<Rightarrow> string \<Rightarrow> 'db \<Rightarrow> error option \<times> 'db"
  syncSchema :: "'db \<Rightarrow> 'db"

text \<open>The state a migration body runs in: the database and the trace so far.\<close>

record 'db st =
  db :: 'db
  trace :: "event list"

definition emit :: "event \<Rightarrow> 'db st \<Rightarrow> 'db st" where
  "emit ev s = s\<lparr>trace := trace s @ [ev]\<rparr>"

section \<open>The calls made by the migration bodies\<close>

text \<open>\<open>logbuch.Info\<close> and \<open>logbuch.Warn\<close>, with the message already formatted.\<close>

definition Info :: "string \<Rightarrow> 'db st \<Rightarrow> 'db st" where
  "Info msg s = emit (LogInfo msg) s"

definition Warn :: "string \<Rightarrow> 'db st \<Rightarrow> 'db st" where
  "Warn msg s = emit (LogWarn msg) s"

text \<open>
  Modelled from the spec: \<open>hasRun\<close> is defined in a file of the package that is not among the
  sources. Section 4.1: \<open>hasCompleted(name)\<close> is true iff a record with that name exists; a
  lookup that cannot be answered counts as "not completed". It reads and changes nothing.
\<close>

definition hasRun :: "'db env \<Rightarrow> string \<Rightarrow> 'db st \<Rightarrow> bool \<times> 'db st" where
  "hasRun e n s = (hasCompleted e n (db s), emit (HasRunCall n) s)"

text \<open>
  Modelled from the spec: \<open>setHasRun\<close> is defined in a file of the package that is not among
  the sources. Sections 4.1 and 7: \<open>markCompleted(name)\<close> writes the record; a failure to
  persist it is logged as a warning and nothing is returned to the caller.
\<close>

definition mark_failed_msg :: "string \<Rightarrow> error \<Rightarrow> string" where
  "mark_failed_msg n err = ''failed to mark migration '' @ n @ '' as completed ('' @ err @ '')''"

definition setHasRun :: "'db env \<Rightarrow> string \<Rightarrow> 'db st \<Rightarrow> 'db st" where
  "setHasRun e n s =
     (let (err, d) = markCompleted e n (db s);
          s1 = emit (SetHasRunCall n) (s\<lparr>db := d\<rparr>)
      in case err of Some x \<Rightarrow> Warn (mark_failed_msg n x) s1 | None \<Rightarrow> s1)"

text \<open>The four methods of \<open>db.Migrator()\<close> that the bodies call.\<close>

definition HasTable :: "'db env \<Rightarrow> model \<Rightarrow> 'db st \<Rightarrow> bool \<times> 'db st" where
  "HasTable e m s = (tableExists e m (db s), emit (HasTableCall m) s)"

definition HasColumn :: "'db env \<Rightarrow> model \<Rightarrow> string \<Rightarrow> 'db st \<Rightarrow> bool \<times> 'db st" where
  "HasColumn e m c s = (columnExists e m c (db s), emit (HasColumnCall m c) s)"

definition DropConstraint ::
  "'db env \<Rightarrow> model \<Rightarrow> string \<Rightarrow> 'db st \<Rightarrow> error option \<times> 'db st" where
  "DropConstraint e m c s =
     (let (err, d) = dropConstraint e m c (db s)
      in (err, emit (DropConstraintCall m c) (s\<lparr>db := d\<rparr>)))"

definition DropColumn ::
  "'db env \<Rightarrow> model \<Rightarrow> string \<Rightarrow> 'db st \<Rightarrow> error option \<times> 'db st" where
  "DropColumn e m c s =
     (let (err, d) = dropColumn e m c (db s)
      in (err, emit (DropColumnCall m c) (s\<lparr>db := d\<rparr>)))"

section \<open>The migration bodies\<close>

text \<open>The format strings of the log calls, with \<open>%s\<close> and \<open>%v\<close> filled in.\<close>

definition running_msg :: "string \<Rightarrow> string" where
  "running_msg n = ''running migration '' @ [CHR 0x27] @ n @ [CHR 0x27]"

definition fk_failed_msg :: "error \<Rightarrow> string" where
  "fk_failed_msg err = ''failed to drop 'fk_diagnostics_user' constraint ('' @ err @ '')''"

definition user_id_failed_msg :: "error \<Rightarrow> string" where
  "user_id_failed_msg err = ''failed to drop user_id column of diagnostics ('' @ err @ '')''"

definition rank_failed_msg :: "error \<Rightarrow> string" where
  "rank_failed_msg err = ''failed to drop 'rank' column ('' @ err @ '')''"

definition drop_diagnostics_user_name :: string where
  "drop_diagnostics_user_name = ''202203191-drop_diagnostics_user''"

definition drop_rank_column_name :: string where
  "drop_rank_column_name = ''20221016-drop_rank_column''"

text \<open>
  \<open>202203191_drop_diagnostics_user.go\<close>, lines 14 to 35: the function stored in the field
  \<open>f\<close>. Its result is the Go \<open>error\<close> (\<open>None\<close> is \<open>nil\<close>) and the state it leaves.
\<close>

definition drop_diagnostics_user ::
  "'db env \<Rightarrow> config \<Rightarrow> 'db st \<Rightarrow> error option \<times> 'db st" where
  "drop_diagnostics_user e cfg s0 =
     (let (ran, s1) = hasRun e drop_diagnostics_user_name s0 in
      if ran then (None, s1)
      else
        let (has, s2) = HasColumn e Diagnostics ''user_id'' s1;
            s7 = (if has then
                    let s3 = Info (running_msg drop_diagnostics_user_name) s2;
                        (err1, s4) = DropConstraint e Diagnostics ''fk_diagnostics_user'' s3;
                        s5 = (case err1 of Some x \<Rightarrow> Warn (fk_failed_msg x) s4 | None \<Rightarrow> s4);
                        (err2, s6) = DropColumn e Diagnostics ''user_id'' s5
                    in (case err2 of Some x \<Rightarrow> Warn (user_id_failed_msg x) s6 | None \<Rightarrow> s6)
                  else s2)
        in (None, setHasRun e drop_diagnostics_user_name s7))"

text \<open>
  The body of \<open>20221016-drop_rank_column\<close>, lines 14 to 31. The guard is Go's \<open>&&\<close>:
  \<open>HasColumn\<close> is called only when \<open>HasTable\<close> answered true.
\<close>

definition drop_rank_column ::
  "'db env \<Rightarrow> config \<Rightarrow> 'db st \<Rightarrow> error option \<times> 'db st" where
  "drop_rank_column e cfg s0 =
     (let (ran, s1) = hasRun e drop_rank_column_name s0 in
      if ran then (None, s1)
      else
        let (hasT, s2) = HasTable e LeaderboardItem s1;
            (guard, s3) = (if hasT then HasColumn e LeaderboardItem ''rank'' s2 else (False, s2));
            s6 = (if guard then
                    let s4 = Info (running_msg drop_rank_column_name) s3;
                        (err, s5) = DropColumn e LeaderboardItem ''rank'' s4
                    in (case err of Some x \<Rightarrow> Warn (rank_failed_msg x) s5 | None \<Rightarrow> s5)
                  else s3)
        in (None, setHasRun e drop_rank_column_name s6))"

section \<open>Registration, the runner and the call in \<open>main\<close>\<close>

text \<open>
  The struct \<open>migrationFunc\<close> that both \<open>init\<close> functions fill in (lines 12 to 14): a name
  and a function of the database handle and the configuration. The handle's behaviour is
  fixed when the descriptor is built.
\<close>

record 'db migrationFunc =
  name :: string
  f :: "config \<Rightarrow> 'db st \<Rightarrow> error option \<times> 'db st"

text \<open>
  Modelled from the spec: the registry and \<open>registerPostMigration\<close> are defined in a file of
  the package that is not among the sources. Sections 3 and 4.4: two insertion-ordered
  sequences, one per phase; registering appends; no sorting, no deduplication.
\<close>

record 'db registry =
  preMigrations :: "'db migrationFunc list"
  postMigrations :: "'db migrationFunc list"

definition empty_registry :: "'db registry" where
  "empty_registry = \<lparr>preMigrations = [], postMigrations = []\<rparr>"

definition registerPreMigration :: "'db migrationFunc \<Rightarrow> 'db registry \<Rightarrow> 'db registry" where
  "registerPreMigration m r = r\<lparr>preMigrations := preMigrations r @ [m]\<rparr>"

definition registerPostMigration :: "'db migrationFunc \<Rightarrow> 'db registry \<Rightarrow> 'db registry" where
  "registerPostMigration m r = r\<lparr>postMigrations := postMigrations r @ [m]\<rparr>"

text \<open>The two \<open>init\<close> functions: build the descriptor, then \<open>registerPostMigration(f)\<close>.\<close>

definition init_drop_diagnostics_user :: "'db env \<Rightarrow> 'db registry \<Rightarrow> 'db registry" where
  "init_drop_diagnostics_user e r =
     registerPostMigration
       \<lparr>name = drop_diagnostics_user_name, f = drop_diagnostics_user e\<rparr> r"

definition init_drop_rank_column :: "'db env \<Rightarrow> 'db registry \<Rightarrow> 'db registry" where
  "init_drop_rank_column e r =
     registerPostMigration
       \<lparr>name = drop_rank_column_name, f = drop_rank_column e\<rparr> r"

text \<open>
  Modelled from the spec: \<open>migrations.Run\<close> is defined in a file of the package that is not
  among the sources. Section 4.5: for each pre-phase descriptor in order, invoke it and log
  the outcome; invoke the additive schema sync once; then the same for each post-phase
  descriptor; nothing is returned. An error returned by a body is logged and absorbed.
  The entry into \<open>Run\<close> is recorded as \<open>RunCall\<close>.
\<close>

fun run_migrations :: "'db migrationFunc list \<Rightarrow> config \<Rightarrow> 'db st \<Rightarrow> 'db st" where
  "run_migrations [] cfg s = s"
| "run_migrations (m # ms) cfg s =
     (let (err, s1) = f m cfg s
      in run_migrations ms cfg (emit (OutcomeLogged (name m) err) s1))"

definition AutoMigrate :: "'db env \<Rightarrow> 'db st \<Rightarrow> 'db st" where
  "AutoMigrate e s = emit AutoMigrateCall (s\<lparr>db := syncSchema e (db s)\<rparr>)"

definition Run :: "'db env \<Rightarrow> 'db registry \<Rightarrow> config \<Rightarrow> 'db st \<Rightarrow> 'db st" where
  "Run e r cfg s =
     (let s1 = emit RunCall s;
          s2 = run_migrations (preMigrations r) cfg s1;
          s3 = AutoMigrate e s2
      in run_migrations (postMigrations r) cfg s3)"

text \<open>\<open>main.go\<close>, lines 166 to 169: the only place where the migration pass is started.\<close>

definition main_migrate :: "'db env \<Rightarrow> 'db registry \<Rightarrow> config \<Rightarrow> 'db st \<Rightarrow> 'db st" where
  "main_migrate e r cfg s = (if \<not> SkipMigrations cfg then Run e r cfg s else s)"

section \<open>A reference database\<close>

text \<open>
  Modelled from the spec: the database behind the handle is an external collaborator. This
  is the one the specification describes, used to run the bodies on concrete inputs.
  A table has columns and named constraints. The ledger is a table of its own, mapping a
  migration name to its completion time; it is absent before the first schema sync
  (section 4.1). Dropping something that is not there fails (section 8, scenarios C and D);
  writing to an absent ledger fails (section 7); the sync creates what is missing and removes
  nothing (section 4.5).
\<close>

record table =
  columns :: "string list"
  constraints :: "string list"

record database =
  tables :: "model \<rightharpoonup> table"
  ledger :: "(string \<rightharpoonup> nat) option"
  now :: nat

definition db_hasCompleted :: "string \<Rightarrow> database \<Rightarrow> bool" where
  "db_hasCompleted n d = (case ledger d of None \<Rightarrow> False | Some rows \<Rightarrow> rows n \<noteq> None)"

definition db_markCompleted :: "string \<Rightarrow> database \<Rightarrow> error option \<times> database" where
  "db_markCompleted n d =
     (case ledger d of
        None \<Rightarrow> (Some ''no ledger table'', d)
      | Some rows \<Rightarrow> (None, d\<lparr>ledger := Some (rows(n \<mapsto> now d))\<rparr>))"

definition db_tableExists :: "model \<Rightarrow> database \<Rightarrow> bool" where
  "db_tableExists m d = (tables d m \<noteq> None)"

definition db_columnExists :: "model \<Rightarrow> string \<Rightarrow> database \<Rightarrow> bool" where
  "db_columnExists m c d = (case tables d m of None \<Rightarrow> False | Some t \<Rightarrow> c \<in> set (columns t))"

definition db_constraintExists :: "model \<Rightarrow> string \<Rightarrow> database \<Rightarrow> bool" where
  "db_constraintExists m c d =
     (case tables d m of None \<Rightarrow> False | Some t \<Rightarrow> c \<in> set (constraints t))"

definition db_dropConstraint :: "model \<Rightarrow> string \<Rightarrow> database \<Rightarrow> error option \<times> database" where
  "db_dropConstraint m c d =
     (case tables d m of
        None \<Rightarrow> (Some ''no such table'', d)
      | Some t \<Rightarrow>
          if c \<in> set (constraints t)
          then (None, d\<lparr>tables := (tables d)(m \<mapsto> t\<lparr>constraints := removeAll c (constraints t)\<rparr>)\<rparr>)
          else (Some ''no such constraint'', d))"

definition db_dropColumn :: "model \<Rightarrow> string \<Rightarrow> database \<Rightarrow> error option \<times> database" where
  "db_dropColumn m c d =
     (case tables d m of
        None \<Rightarrow> (Some ''no such table'', d)
      | Some t \<Rightarrow>
          if c \<in> set (columns t)
          then (None, d\<lparr>tables := (tables d)(m \<mapsto> t\<lparr>columns := removeAll c (columns t)\<rparr>)\<rparr>)
          else (Some ''no such column'', d))"

text \<open>
  The additive sync, for the current entity definitions \<open>ents\<close> (the columns each entity
  has today; the entity definitions are not among the sources).
\<close>

definition db_syncSchema :: "(model \<Rightarrow> string list) \<Rightarrow> database \<Rightarrow> database" where
  "db_syncSchema ents d =
     d\<lparr>tables := (\<lambda>m. Some (case tables d m of
                    None \<Rightarrow> \<lparr>columns = ents m, constraints = []\<rparr>
                  | Some t \<Rightarrow> t\<lparr>columns := columns t @ filter (\<lambda>c. c \<notin> set (columns t)) (ents m)\<rparr>)),
       ledger := Some (case ledger d of None \<Rightarrow> Map.empty | Some rows \<Rightarrow> rows)\<rparr>"

definition db_env :: "(model \<Rightarrow> string list) \<Rightarrow> database env" where
  "db_env ents =
     \<lparr>hasCompleted = db_hasCompleted, markCompleted = db_markCompleted,
      tableExists = db_tableExists, columnExists = db_columnExists,
      constraintExists = db_constraintExists,
      dropConstraint = db_dropConstraint, dropColumn = db_dropColumn,
      syncSchema = db_syncSchema ents\<rparr>"

text \<open>The database before anything was created, and entity definitions without the legacy columns.\<close>

definition empty_db :: database where
  "empty_db = \<lparr>tables = Map.empty, ledger = None, now = 0\<rparr>"

definition current_entities :: "model \<Rightarrow> string list" where
  "current_entities m =
     (case m of Diagnostics \<Rightarrow> [''id'', ''platform'', ''logs'']
              | LeaderboardItem \<Rightarrow> [''id'', ''user_id'', ''total''])"

section \<open>The migration contract of the specification\<close>

text \<open>
  Section 4.3 of the specification, in its own words, to compare the bodies with: consult
  the ledger and return \<open>Skipped\<close> if the name is recorded; evaluate the guard and, if it is
  false, touch nothing; otherwise attempt each sub-step, collecting the failures without
  stopping; in both of the latter cases mark the migration completed.
\<close>

datatype result = Skipped | Applied | AppliedWithWarnings "error list" | NoopGuardFalse

fun attempt_steps :: "('db \<Rightarrow> error option \<times> 'db) list \<Rightarrow> 'db \<Rightarrow> error list \<times> 'db" where
  "attempt_steps [] d = ([], d)"
| "attempt_steps (step # steps) d =
     (let (err, d1) = step d;
          (errs, d2) = attempt_steps steps d1
      in ((case err of Some x \<Rightarrow> [x] | None \<Rightarrow> []) @ errs, d2))"

definition execute_spec ::
  "'db env \<Rightarrow> string \<Rightarrow> ('db \<Rightarrow> bool) \<Rightarrow> ('db \<Rightarrow> error option \<times> 'db) list \<Rightarrow> 'db
     \<Rightarrow> result \<times> 'db" where
  "execute_spec e n guard steps d =
     (if hasCompleted e n d then (Skipped, d)
      else if \<not> guard d then (NoopGuardFalse, snd (markCompleted e n d))
      else
        let (errs, d1) = attempt_steps steps d
        in (if errs = [] then Applied else AppliedWithWarnings errs,
            snd (markCompleted e n d1)))"

definition execute_spec_diagnostics :: "'db env \<Rightarrow> 'db \<Rightarrow> result \<times> 'db" where
  "execute_spec_diagnostics e =
     execute_spec e drop_diagnostics_user_name
       (columnExists e Diagnostics ''user_id'')
       [dropConstraint e Diagnostics ''fk_diagnostics_user'',
        dropColumn e Diagnostics ''user_id'']"

definition execute_spec_rank :: "'db env \<Rightarrow> 'db \<Rightarrow> result \<times> 'db" where
  "execute_spec_rank e =
     execute_spec e drop_rank_column_name
       (\<lambda>d. tableExists e LeaderboardItem d \<and> columnExists e LeaderboardItem ''rank'' d)
       [dropColumn e LeaderboardItem ''rank'']"

section \<open>Vocabulary for the statements\<close>

text \<open>The warning a failed step leaves in the trace, if it failed.\<close>

definition warned :: "(error \<Rightarrow> string) \<Rightarrow> error option \<Rightarrow> event list" where
  "warned msg err = (case err of Some x \<Rightarrow> [LogWarn (msg x)] | None \<Rightarrow> [])"

text \<open>The events a run added to the trace it started from.\<close>

definition events_since :: "'db st \<Rightarrow> 'db st \<Rightarrow> event list" where
  "events_since s s' = drop (length (trace s)) (trace s')"

text \<open>Both events occur, and \<open>b\<close> does not occur before the first \<open>a\<close>.\<close>

definition precedes :: "event \<Rightarrow> event \<Rightarrow> event list \<Rightarrow> bool" where
  "precedes a b evs =
     (a \<in> set evs \<and> b \<in> set evs \<and> b \<notin> set (takeWhile (\<lambda>x. x \<noteq> a) evs))"

text \<open>A ledger whose successful writes are seen by later lookups.\<close>

definition write_visible :: "'db env \<Rightarrow> bool" where
  "write_visible e =
     (\<forall>n d. fst (markCompleted e n d) = None \<longrightarrow> hasCompleted e n (snd (markCompleted e n d)))"

definition start :: "'db \<Rightarrow> 'db st" where
  "start d = \<lparr>db = d, trace = []\<rparr>"

text \<open>
  The registry once both \<open>init\<close> functions have run, in the order of the file names
  (\<open>202203191_...\<close> sorts before \<open>20221016_...\<close>), and in the other order.
\<close>

definition registry_after_init :: "'db env \<Rightarrow> 'db registry" where
  "registry_after_init e =
     init_drop_rank_column e (init_drop_diagnostics_user e empty_registry)"

definition registry_after_init_swapped :: "'db env \<Rightarrow> 'db registry" where
  "registry_after_init_swapped e =
     init_drop_diagnostics_user e (init_drop_rank_column e empty_registry)"

section \<open>Concrete inputs\<close>

text \<open>
  A database created from an old schema: the diagnostics table still has \<open>user_id\<close> and its
  foreign key, the leaderboard table still has \<open>rank\<close>; the ledger exists and is empty.
\<close>

definition legacy_db :: database where
  "legacy_db =
     \<lparr>tables =
        [Diagnostics \<mapsto> \<lparr>columns = [''id'', ''user_id'', ''platform''],
                        constraints = [''fk_diagnostics_user'']\<rparr>,
         LeaderboardItem \<mapsto> \<lparr>columns = [''id'', ''rank'', ''total''], constraints = []\<rparr>],
      ledger = Some Map.empty, now = 7\<rparr>"

text \<open>Scenario C of section 8: the foreign key was already removed by hand.\<close>

definition scenario_c_db :: database where
  "scenario_c_db =
     legacy_db\<lparr>tables := (tables legacy_db)
       (Diagnostics \<mapsto> \<lparr>columns = [''id'', ''user_id'', ''platform''], constraints = []\<rparr>)\<rparr>"

text \<open>The same old schema before the ledger's own table exists.\<close>

definition no_ledger_db :: database where
  "no_ledger_db = legacy_db\<lparr>ledger := None\<rparr>"

text \<open>Only the diagnostics table exists, without \<open>user_id\<close>; no leaderboard table.\<close>

definition no_leaderboard_db :: database where
  "no_leaderboard_db =
     \<lparr>tables = [Diagnostics \<mapsto> \<lparr>columns = [''id'', ''platform''], constraints = []\<rparr>],
      ledger = Some Map.empty, now = 7\<rparr>"

text \<open>A handle on which every mutation and every ledger write is refused.\<close>

definition failing_env :: "unit env" where
  "failing_env =
     \<lparr>hasCompleted = (\<lambda>n d. False), markCompleted = (\<lambda>n d. (Some ''read-only'', d)),
      tableExists = (\<lambda>m d. True), columnExists = (\<lambda>m c d. True),
      constraintExists = (\<lambda>m c d. False),
      dropConstraint = (\<lambda>m c d. (Some ''denied'', d)),
      dropColumn = (\<lambda>m c d. (Some ''denied'', d)),
      syncSchema = (\<lambda>d. d)\<rparr>"

definition some_config :: config where
  "some_config = \<lparr>SkipMigrations = False\<rparr>"

section \<open>Unfolding the calls\<close>

lemmas call_defs = hasRun_def setHasRun_def HasTable_def HasColumn_def DropConstraint_def
  DropColumn_def Info_def Warn_def emit_def

lemmas db_defs = db_env_def db_hasCompleted_def db_markCompleted_def db_tableExists_def
  db_columnExists_def db_constraintExists_def db_dropConstraint_def db_dropColumn_def
  db_syncSchema_def

lemmas msg_defs = running_msg_def fk_failed_msg_def user_id_failed_msg_def rank_failed_msg_def
  mark_failed_msg_def drop_diagnostics_user_name_def drop_rank_column_name_def

section \<open>What each path of a body does\<close>

text \<open>
  Both bodies return \<open>nil\<close> on every path, and the database they leave is the one the
  contract of section 4.3 prescribes.
\<close>

lemma diag_refines:
  "fst (drop_diagnostics_user e cfg s) = None \<and>
   db (snd (drop_diagnostics_user e cfg s)) = snd (execute_spec_diagnostics e (db s))"
  by (simp add: drop_diagnostics_user_def execute_spec_diagnostics_def execute_spec_def call_defs Let_def
       split: prod.splits option.splits)

lemma rank_refines:
  "fst (drop_rank_column e cfg s) = None \<and>
   db (snd (drop_rank_column e cfg s)) = snd (execute_spec_rank e (db s))"
  by (simp add: drop_rank_column_def execute_spec_rank_def execute_spec_def call_defs Let_def
       split: prod.splits option.splits)

text \<open>The three paths of each body, with the state they return written out.\<close>

lemma diag_skip:
  "hasCompleted e drop_diagnostics_user_name (db s) \<Longrightarrow>
   drop_diagnostics_user e cfg s = (None, emit (HasRunCall drop_diagnostics_user_name) s)"
  by (simp add: drop_diagnostics_user_def hasRun_def)

lemma rank_skip:
  "hasCompleted e drop_rank_column_name (db s) \<Longrightarrow>
   drop_rank_column e cfg s = (None, emit (HasRunCall drop_rank_column_name) s)"
  by (simp add: drop_rank_column_def hasRun_def)

lemma diag_noop:
  "\<not> hasCompleted e drop_diagnostics_user_name (db s) \<Longrightarrow>
   \<not> columnExists e Diagnostics ''user_id'' (db s) \<Longrightarrow>
   drop_diagnostics_user e cfg s =
     (None, setHasRun e drop_diagnostics_user_name
              (emit (HasColumnCall Diagnostics ''user_id'')
                 (emit (HasRunCall drop_diagnostics_user_name) s)))"
  by (simp add: drop_diagnostics_user_def hasRun_def HasColumn_def emit_def)

lemma diag_mut:
  "\<not> hasCompleted e drop_diagnostics_user_name (db s) \<Longrightarrow>
   columnExists e Diagnostics ''user_id'' (db s) \<Longrightarrow>
   drop_diagnostics_user e cfg s =
     (let (err1, d1) = dropConstraint e Diagnostics ''fk_diagnostics_user'' (db s);
          (err2, d2) = dropColumn e Diagnostics ''user_id'' d1;
          (err3, d3) = markCompleted e drop_diagnostics_user_name d2
      in (None, s\<lparr>db := d3,
            trace := trace s @
              [HasRunCall drop_diagnostics_user_name, HasColumnCall Diagnostics ''user_id'',
               LogInfo (running_msg drop_diagnostics_user_name),
               DropConstraintCall Diagnostics ''fk_diagnostics_user''] @
              warned fk_failed_msg err1 @
              [DropColumnCall Diagnostics ''user_id''] @
              warned user_id_failed_msg err2 @
              [SetHasRunCall drop_diagnostics_user_name] @
              warned (mark_failed_msg drop_diagnostics_user_name) err3\<rparr>))"
  by (simp add: drop_diagnostics_user_def call_defs warned_def Let_def split: prod.splits option.splits)

lemma rank_noop_table:
  "\<not> hasCompleted e drop_rank_column_name (db s) \<Longrightarrow>
   \<not> tableExists e LeaderboardItem (db s) \<Longrightarrow>
   drop_rank_column e cfg s =
     (None, setHasRun e drop_rank_column_name
              (emit (HasTableCall LeaderboardItem)
                 (emit (HasRunCall drop_rank_column_name) s)))"
  by (simp add: drop_rank_column_def hasRun_def HasTable_def emit_def)

lemma rank_noop_column:
  "\<not> hasCompleted e drop_rank_column_name (db s) \<Longrightarrow>
   tableExists e LeaderboardItem (db s) \<Longrightarrow>
   \<not> columnExists e LeaderboardItem ''rank'' (db s) \<Longrightarrow>
   drop_rank_column e cfg s =
     (None, setHasRun e drop_rank_column_name
              (emit (HasColumnCall LeaderboardItem ''rank'')
                (emit (HasTableCall LeaderboardItem)
                  (emit (HasRunCall drop_rank_column_name) s))))"
  by (simp add: drop_rank_column_def hasRun_def HasTable_def HasColumn_def emit_def)

lemma rank_mut:
  "\<not> hasCompleted e drop_rank_column_name (db s) \<Longrightarrow>
   tableExists e LeaderboardItem (db s) \<Longrightarrow>
   columnExists e LeaderboardItem ''rank'' (db s) \<Longrightarrow>
   drop_rank_column e cfg s =
     (let (err1, d1) = dropColumn e LeaderboardItem ''rank'' (db s);
          (err2, d2) = markCompleted e drop_rank_column_name d1
      in (None, s\<lparr>db := d2,
            trace := trace s @
              [HasRunCall drop_rank_column_name, HasTableCall LeaderboardItem,
               HasColumnCall LeaderboardItem ''rank'',
               LogInfo (running_msg drop_rank_column_name),
               DropColumnCall LeaderboardItem ''rank''] @
              warned rank_failed_msg err1 @
              [SetHasRunCall drop_rank_column_name] @
              warned (mark_failed_msg drop_rank_column_name) err2\<rparr>))"
  by (simp add: drop_rank_column_def call_defs warned_def Let_def split: prod.splits option.splits)

lemma setHasRun_shape:
  "setHasRun e n s =
     s\<lparr>db := snd (markCompleted e n (db s)),
       trace := trace s @ SetHasRunCall n # warned (mark_failed_msg n) (fst (markCompleted e n (db s)))\<rparr>"
  by (simp add: setHasRun_def Warn_def emit_def warned_def split: prod.splits option.splits)


lemma write_visibleD:
  "write_visible e \<Longrightarrow> fst (markCompleted e n d) = None \<Longrightarrow>
   hasCompleted e n (snd (markCompleted e n d))"
  by (simp add: write_visible_def)

text \<open>Facts about the reference database.\<close>

lemma db_env_sel [simp]:
  "hasCompleted (db_env ents) = db_hasCompleted"
  "markCompleted (db_env ents) = db_markCompleted"
  "tableExists (db_env ents) = db_tableExists"
  "columnExists (db_env ents) = db_columnExists"
  "constraintExists (db_env ents) = db_constraintExists"
  "dropConstraint (db_env ents) = db_dropConstraint"
  "dropColumn (db_env ents) = db_dropColumn"
  "syncSchema (db_env ents) = db_syncSchema ents"
  by (simp_all add: db_env_def)

lemma db_mark_ok:
  "ledger d \<noteq> None \<Longrightarrow> db_hasCompleted n (snd (db_markCompleted n d))"
  by (auto simp: db_hasCompleted_def db_markCompleted_def)

lemma db_drop_ledger:
  "ledger (snd (db_dropConstraint m c d)) = ledger d"
  "ledger (snd (db_dropColumn m c d)) = ledger d"
  by (simp_all add: db_dropConstraint_def db_dropColumn_def split: option.splits)

lemma db_mark_tables: "tables (snd (db_markCompleted n d)) = tables d"
  by (simp add: db_markCompleted_def split: option.splits)


lemma attempt_two:
  "snd (attempt_steps [a, b] d) = snd (b (snd (a d)))"
  "snd (attempt_steps [a] d) = snd (a d)"
  by (simp_all add: Let_def split: prod.splits)

lemma db_diag_recorded:
  "ledger (db s) \<noteq> None \<Longrightarrow>
   db_hasCompleted drop_diagnostics_user_name (db (snd (drop_diagnostics_user (db_env ents) cfg s)))"
  by (simp add: diag_refines execute_spec_diagnostics_def execute_spec_def attempt_two
        case_prod_beta Let_def db_mark_ok db_drop_ledger)

lemma db_rank_recorded:
  "ledger (db s) \<noteq> None \<Longrightarrow>
   db_hasCompleted drop_rank_column_name (db (snd (drop_rank_column (db_env ents) cfg s)))"
  by (simp add: rank_refines execute_spec_rank_def execute_spec_def attempt_two
        case_prod_beta Let_def db_mark_ok db_drop_ledger)

section \<open>The runner on the two registered migrations\<close>

text \<open>Each body starts with the ledger lookup and only ever extends the trace.\<close>

lemma diag_trace:
  "\<exists>evs. trace (snd (drop_diagnostics_user e cfg s)) = trace s @ HasRunCall drop_diagnostics_user_name # evs"
  by (cases "hasCompleted e drop_diagnostics_user_name (db s)";
      cases "columnExists e Diagnostics ''user_id'' (db s)")
     (simp_all add: diag_skip diag_noop diag_mut setHasRun_shape emit_def case_prod_beta)

lemma rank_trace:
  "\<exists>evs. trace (snd (drop_rank_column e cfg s)) = trace s @ HasRunCall drop_rank_column_name # evs"
  by (cases "hasCompleted e drop_rank_column_name (db s)";
      cases "tableExists e LeaderboardItem (db s)";
      cases "columnExists e LeaderboardItem ''rank'' (db s)")
     (simp_all add: rank_skip rank_noop_table rank_noop_column rank_mut setHasRun_shape emit_def
        case_prod_beta)

lemma registry_after_init_lists:
  "preMigrations (registry_after_init e) = []"
  "postMigrations (registry_after_init e) =
     [\<lparr>name = drop_diagnostics_user_name, f = drop_diagnostics_user e\<rparr>,
      \<lparr>name = drop_rank_column_name, f = drop_rank_column e\<rparr>]"
  "preMigrations (registry_after_init_swapped e) = []"
  "postMigrations (registry_after_init_swapped e) =
     [\<lparr>name = drop_rank_column_name, f = drop_rank_column e\<rparr>,
      \<lparr>name = drop_diagnostics_user_name, f = drop_diagnostics_user e\<rparr>]"
  by (simp_all add: registry_after_init_def registry_after_init_swapped_def
        init_drop_rank_column_def init_drop_diagnostics_user_def
        registerPostMigration_def empty_registry_def)

lemma Run_trace:
  "\<exists>evs1 evs2.
     trace (Run e (registry_after_init e) cfg s) =
       trace s @ [RunCall, AutoMigrateCall, HasRunCall drop_diagnostics_user_name] @ evs1 @
       [OutcomeLogged drop_diagnostics_user_name None, HasRunCall drop_rank_column_name] @ evs2 @
       [OutcomeLogged drop_rank_column_name None]"
proof -
  let ?s3 = "AutoMigrate e (emit RunCall s)"
  obtain evs1 where 1:
    "trace (snd (drop_diagnostics_user e cfg ?s3)) = trace ?s3 @ HasRunCall drop_diagnostics_user_name # evs1"
    using diag_trace by blast
  let ?s4 = "emit (OutcomeLogged drop_diagnostics_user_name None) (snd (drop_diagnostics_user e cfg ?s3))"
  obtain evs2 where 2:
    "trace (snd (drop_rank_column e cfg ?s4)) = trace ?s4 @ HasRunCall drop_rank_column_name # evs2"
    using rank_trace by blast
  have d: "drop_diagnostics_user e cfg ?s3 = (None, snd (drop_diagnostics_user e cfg ?s3))"
    using diag_refines [of e cfg ?s3] by (simp add: prod_eq_iff)
  have r: "drop_rank_column e cfg ?s4 = (None, snd (drop_rank_column e cfg ?s4))"
    using rank_refines [of e cfg ?s4] by (simp add: prod_eq_iff)
  have "Run e (registry_after_init e) cfg s =
          emit (OutcomeLogged drop_rank_column_name None) (snd (drop_rank_column e cfg ?s4))"
    unfolding Run_def registry_after_init_lists Let_def
    apply (simp only: run_migrations.simps Let_def migrationFunc.simps)
    apply (subst d)
    apply (simp only: prod.case)
    apply (subst r)
    apply (simp only: prod.case)
    done
  then have "trace (Run e (registry_after_init e) cfg s) =
       trace s @ [RunCall, AutoMigrateCall, HasRunCall drop_diagnostics_user_name] @ evs1 @
       [OutcomeLogged drop_diagnostics_user_name None, HasRunCall drop_rank_column_name] @ evs2 @
       [OutcomeLogged drop_rank_column_name None]"
    using 1 2 by (simp add: emit_def AutoMigrate_def)
  then show ?thesis by blast
qed

text \<open>
  Scenario A of section 8: the runner on a database where nothing exists yet, with entity
  definitions that have neither \<open>rank\<close> nor \<open>user_id\<close>.
\<close>

lemma Run_fresh:
  assumes "''rank'' \<notin> set (ents LeaderboardItem)" and "''user_id'' \<notin> set (ents Diagnostics)"
  shows "Run (db_env ents) (registry_after_init (db_env ents)) cfg (start empty_db) =
     \<lparr>db = (db_syncSchema ents empty_db)
             \<lparr>ledger := Some [drop_diagnostics_user_name \<mapsto> 0, drop_rank_column_name \<mapsto> 0]\<rparr>,
      trace = [RunCall, AutoMigrateCall,
               HasRunCall drop_diagnostics_user_name, HasColumnCall Diagnostics ''user_id'',
               SetHasRunCall drop_diagnostics_user_name,
               OutcomeLogged drop_diagnostics_user_name None,
               HasRunCall drop_rank_column_name, HasTableCall LeaderboardItem,
               HasColumnCall LeaderboardItem ''rank'',
               SetHasRunCall drop_rank_column_name,
               OutcomeLogged drop_rank_column_name None]\<rparr>"
proof -
  let ?e = "db_env ents"
  let ?d3 = "db_syncSchema ents empty_db"
  let ?s3 = "AutoMigrate ?e (emit RunCall (start empty_db))"
  have s3: "?s3 = \<lparr>db = ?d3, trace = [RunCall, AutoMigrateCall]\<rparr>"
    by (simp add: AutoMigrate_def emit_def start_def)
  have g1: "\<not> hasCompleted ?e drop_diagnostics_user_name ?d3"
    and g2: "\<not> columnExists ?e Diagnostics ''user_id'' ?d3"
    using assms by (simp_all add: db_hasCompleted_def db_columnExists_def db_syncSchema_def empty_db_def)
  have m1: "db_markCompleted drop_diagnostics_user_name ?d3 =
              (None, ?d3\<lparr>ledger := Some [drop_diagnostics_user_name \<mapsto> 0]\<rparr>)"
    by (simp add: db_markCompleted_def db_syncSchema_def empty_db_def)
  let ?d4 = "?d3\<lparr>ledger := Some [drop_diagnostics_user_name \<mapsto> 0]\<rparr>"
  have d: "drop_diagnostics_user ?e cfg ?s3 =
             (None, \<lparr>db = ?d4,
                     trace = [RunCall, AutoMigrateCall,
                              HasRunCall drop_diagnostics_user_name, HasColumnCall Diagnostics ''user_id'',
                              SetHasRunCall drop_diagnostics_user_name]\<rparr>)"
    unfolding s3 using g1 g2 by (simp add: diag_noop setHasRun_shape emit_def m1 warned_def)
  let ?s4 = "\<lparr>db = ?d4,
                     trace = [RunCall, AutoMigrateCall,
                              HasRunCall drop_diagnostics_user_name, HasColumnCall Diagnostics ''user_id'',
                              SetHasRunCall drop_diagnostics_user_name,
                              OutcomeLogged drop_diagnostics_user_name None]\<rparr>"
  have h1: "\<not> hasCompleted ?e drop_rank_column_name ?d4"
    and h2: "tableExists ?e LeaderboardItem ?d4"
    and h3: "\<not> columnExists ?e LeaderboardItem ''rank'' ?d4"
    using assms by (simp_all add: db_hasCompleted_def db_columnExists_def db_tableExists_def
         db_syncSchema_def empty_db_def msg_defs)
  have m2: "db_markCompleted drop_rank_column_name ?d4 =
              (None, ?d3\<lparr>ledger := Some [drop_diagnostics_user_name \<mapsto> 0, drop_rank_column_name \<mapsto> 0]\<rparr>)"
    by (simp add: db_markCompleted_def db_syncSchema_def empty_db_def)
  have r: "drop_rank_column ?e cfg ?s4 =
             (None, \<lparr>db = ?d3\<lparr>ledger := Some [drop_diagnostics_user_name \<mapsto> 0, drop_rank_column_name \<mapsto> 0]\<rparr>,
                     trace = [RunCall, AutoMigrateCall,
                              HasRunCall drop_diagnostics_user_name, HasColumnCall Diagnostics ''user_id'',
                              SetHasRunCall drop_diagnostics_user_name,
                              OutcomeLogged drop_diagnostics_user_name None,
                              HasRunCall drop_rank_column_name, HasTableCall LeaderboardItem,
                              HasColumnCall LeaderboardItem ''rank'',
                              SetHasRunCall drop_rank_column_name]\<rparr>)"
    using h1 h2 h3 by (simp add: rank_noop_column setHasRun_shape emit_def m2 warned_def)
  show ?thesis
    unfolding Run_def registry_after_init_lists Let_def
    apply (simp only: run_migrations.simps Let_def migrationFunc.simps)
    apply (subst d)
    apply (simp only: prod.case)
    apply (simp add: emit_def r)
    done
qed

section \<open>The claims\<close>

text \<open>
  Claim C1, as amended. If the ledger already records the migration's name, the body returns
  \<open>nil\<close> at once: the only event is the ledger lookup, the database is untouched, and the
  contract's outcome is \<open>Skipped\<close>. A second call right after a first one is skipped in
  this way whenever the first call's mark reached the ledger; on the reference database that
  is whenever the ledger table exists.
\<close>

theorem recorded_migration_is_skipped:
  "(hasCompleted e drop_diagnostics_user_name (db s) \<longrightarrow>
      drop_diagnostics_user e cfg s = (None, s\<lparr>trace := trace s @ [HasRunCall drop_diagnostics_user_name]\<rparr>) \<and>
      execute_spec_diagnostics e (db s) = (Skipped, db s)) \<and>
   (hasCompleted e drop_rank_column_name (db s) \<longrightarrow>
      drop_rank_column e cfg s = (None, s\<lparr>trace := trace s @ [HasRunCall drop_rank_column_name]\<rparr>) \<and>
      execute_spec_rank e (db s) = (Skipped, db s)) \<and>
   (hasCompleted e drop_diagnostics_user_name (db (snd (drop_diagnostics_user e cfg s))) \<longrightarrow>
      drop_diagnostics_user e cfg (snd (drop_diagnostics_user e cfg s)) =
        (None, emit (HasRunCall drop_diagnostics_user_name) (snd (drop_diagnostics_user e cfg s)))) \<and>
   (hasCompleted e drop_rank_column_name (db (snd (drop_rank_column e cfg s))) \<longrightarrow>
      drop_rank_column e cfg (snd (drop_rank_column e cfg s)) =
        (None, emit (HasRunCall drop_rank_column_name) (snd (drop_rank_column e cfg s)))) \<and>
   (ledger (db t) \<noteq> None \<longrightarrow>
      drop_diagnostics_user (db_env ents) cfg (snd (drop_diagnostics_user (db_env ents) cfg t)) =
        (None, emit (HasRunCall drop_diagnostics_user_name)
                 (snd (drop_diagnostics_user (db_env ents) cfg t))) \<and>
      drop_rank_column (db_env ents) cfg (snd (drop_rank_column (db_env ents) cfg t)) =
        (None, emit (HasRunCall drop_rank_column_name)
                 (snd (drop_rank_column (db_env ents) cfg t))))"
  by (simp add: diag_skip rank_skip emit_def execute_spec_diagnostics_def execute_spec_rank_def
        execute_spec_def db_diag_recorded db_rank_recorded)

theorem recorded_migration_is_skipped_witness:
  "db_hasCompleted drop_diagnostics_user_name
     (legacy_db\<lparr>ledger := Some [drop_diagnostics_user_name \<mapsto> 3, drop_rank_column_name \<mapsto> 4]\<rparr>) \<and>
   db_hasCompleted drop_rank_column_name
     (legacy_db\<lparr>ledger := Some [drop_diagnostics_user_name \<mapsto> 3, drop_rank_column_name \<mapsto> 4]\<rparr>) \<and>
   trace (snd (drop_diagnostics_user (db_env current_entities) some_config
     (start (legacy_db\<lparr>ledger := Some [drop_diagnostics_user_name \<mapsto> 3, drop_rank_column_name \<mapsto> 4]\<rparr>))))
     = [HasRunCall drop_diagnostics_user_name] \<and>
   trace (snd (drop_rank_column (db_env current_entities) some_config
     (start (legacy_db\<lparr>ledger := Some [drop_diagnostics_user_name \<mapsto> 3, drop_rank_column_name \<mapsto> 4]\<rparr>))))
     = [HasRunCall drop_rank_column_name] \<and>
   ledger legacy_db \<noteq> None \<and>
   events_since (snd (drop_rank_column (db_env current_entities) some_config (start legacy_db)))
     (snd (drop_rank_column (db_env current_entities) some_config
        (snd (drop_rank_column (db_env current_entities) some_config (start legacy_db)))))
     = [HasRunCall drop_rank_column_name]"
  using recorded_migration_is_skipped
          [of "db_env current_entities"
              "start (legacy_db\<lparr>ledger := Some [drop_diagnostics_user_name \<mapsto> 3, drop_rank_column_name \<mapsto> 4]\<rparr>)"
              some_config "start legacy_db" current_entities]
  by (simp add: db_hasCompleted_def start_def legacy_db_def msg_defs events_since_def emit_def)

text \<open>
  Claim C1 as stated fails where the ledger write of the first call is lost: on a database
  without the ledger table the second call is not skipped, it evaluates the guard again.
\<close>

theorem second_call_not_skipped_counterexample:
  "\<not> (drop_diagnostics_user (db_env current_entities) some_config
        (snd (drop_diagnostics_user (db_env current_entities) some_config (start no_ledger_db)))
      = (None, emit (HasRunCall drop_diagnostics_user_name)
                 (snd (drop_diagnostics_user (db_env current_entities) some_config (start no_ledger_db))))) \<and>
   HasColumnCall Diagnostics ''user_id''
     \<in> set (events_since
          (snd (drop_diagnostics_user (db_env current_entities) some_config (start no_ledger_db)))
          (snd (drop_diagnostics_user (db_env current_entities) some_config
             (snd (drop_diagnostics_user (db_env current_entities) some_config (start no_ledger_db))))))"
  by (simp add: drop_diagnostics_user_def call_defs db_defs Let_def no_ledger_db_def legacy_db_def
        start_def events_since_def msg_defs)

text \<open>
  Claim C2, as amended. Whenever the ledger does not record the name, the last thing the body
  does is \<open>setHasRun\<close> for that name, on the database left by the guarded sub-steps, whether
  the guard was true or false and whatever the sub-steps returned. The ledger records the
  name afterwards if that write succeeds and the ledger shows its successful writes; on the
  reference database that is whenever the ledger table exists.
\<close>

theorem unrecorded_migration_marks_ledger:
  "(\<not> hasCompleted e drop_diagnostics_user_name (db s) \<longrightarrow>
      (\<exists>s'. drop_diagnostics_user e cfg s = (None, setHasRun e drop_diagnostics_user_name s') \<and>
            db s' = snd (attempt_steps
                     (if columnExists e Diagnostics ''user_id'' (db s)
                      then [dropConstraint e Diagnostics ''fk_diagnostics_user'',
                            dropColumn e Diagnostics ''user_id'']
                      else []) (db s)) \<and>
            (write_visible e \<and> fst (markCompleted e drop_diagnostics_user_name (db s')) = None \<longrightarrow>
               hasCompleted e drop_diagnostics_user_name (db (snd (drop_diagnostics_user e cfg s)))))) \<and>
   (\<not> hasCompleted e drop_rank_column_name (db s) \<longrightarrow>
      (\<exists>s'. drop_rank_column e cfg s = (None, setHasRun e drop_rank_column_name s') \<and>
            db s' = snd (attempt_steps
                     (if tableExists e LeaderboardItem (db s) \<and>
                         columnExists e LeaderboardItem ''rank'' (db s)
                      then [dropColumn e LeaderboardItem ''rank'']
                      else []) (db s)) \<and>
            (write_visible e \<and> fst (markCompleted e drop_rank_column_name (db s')) = None \<longrightarrow>
               hasCompleted e drop_rank_column_name (db (snd (drop_rank_column e cfg s)))))) \<and>
   (ledger (db t) \<noteq> None \<longrightarrow>
      db_hasCompleted drop_diagnostics_user_name
        (db (snd (drop_diagnostics_user (db_env ents) cfg t))) \<and>
      db_hasCompleted drop_rank_column_name
        (db (snd (drop_rank_column (db_env ents) cfg t))))"
proof (intro conjI impI)
  assume a: "\<not> hasCompleted e drop_diagnostics_user_name (db s)"
  let ?n = drop_diagnostics_user_name
  let ?P = "\<lambda>s'. drop_diagnostics_user e cfg s = (None, setHasRun e ?n s') \<and>
            db s' = snd (attempt_steps
                     (if columnExists e Diagnostics ''user_id'' (db s)
                      then [dropConstraint e Diagnostics ''fk_diagnostics_user'',
                            dropColumn e Diagnostics ''user_id'']
                      else []) (db s)) \<and>
            (write_visible e \<and> fst (markCompleted e ?n (db s')) = None \<longrightarrow>
               hasCompleted e ?n (db (snd (drop_diagnostics_user e cfg s))))"
  show "\<exists>s'. ?P s'"
  proof (cases "columnExists e Diagnostics ''user_id'' (db s)")
    case False
    with a have "?P (emit (HasColumnCall Diagnostics ''user_id'') (emit (HasRunCall ?n) s))"
      by (simp add: diag_noop setHasRun_shape emit_def write_visibleD)
    then show ?thesis ..
  next
    case True
    obtain err1 d1 where 1: "dropConstraint e Diagnostics ''fk_diagnostics_user'' (db s) = (err1, d1)"
      by (cases "dropConstraint e Diagnostics ''fk_diagnostics_user'' (db s)")
    obtain err2 d2 where 2: "dropColumn e Diagnostics ''user_id'' d1 = (err2, d2)"
      by (cases "dropColumn e Diagnostics ''user_id'' d1")
    from a True 1 2 have
      "?P (s\<lparr>db := d2, trace := trace s @
              [HasRunCall ?n, HasColumnCall Diagnostics ''user_id'',
               LogInfo (running_msg ?n),
               DropConstraintCall Diagnostics ''fk_diagnostics_user''] @
              warned fk_failed_msg err1 @
              [DropColumnCall Diagnostics ''user_id''] @
              warned user_id_failed_msg err2\<rparr>)"
      by (simp add: diag_mut setHasRun_shape write_visibleD case_prod_beta)
    then show ?thesis ..
  qed
next
  assume a: "\<not> hasCompleted e drop_rank_column_name (db s)"
  let ?n = drop_rank_column_name
  let ?P = "\<lambda>s'. drop_rank_column e cfg s = (None, setHasRun e ?n s') \<and>
            db s' = snd (attempt_steps
                     (if tableExists e LeaderboardItem (db s) \<and>
                         columnExists e LeaderboardItem ''rank'' (db s)
                      then [dropColumn e LeaderboardItem ''rank'']
                      else []) (db s)) \<and>
            (write_visible e \<and> fst (markCompleted e ?n (db s')) = None \<longrightarrow>
               hasCompleted e ?n (db (snd (drop_rank_column e cfg s))))"
  show "\<exists>s'. ?P s'"
  proof (cases "tableExists e LeaderboardItem (db s)")
    case False
    with a have "?P (emit (HasTableCall LeaderboardItem) (emit (HasRunCall ?n) s))"
      by (simp add: rank_noop_table setHasRun_shape emit_def write_visibleD)
    then show ?thesis ..
  next
    case t: True
    show ?thesis
    proof (cases "columnExists e LeaderboardItem ''rank'' (db s)")
      case False
      with a t have "?P (emit (HasColumnCall LeaderboardItem ''rank'')
                          (emit (HasTableCall LeaderboardItem) (emit (HasRunCall ?n) s)))"
        by (simp add: rank_noop_column setHasRun_shape emit_def write_visibleD)
      then show ?thesis ..
    next
      case True
      obtain err1 d1 where 1: "dropColumn e LeaderboardItem ''rank'' (db s) = (err1, d1)"
        by (cases "dropColumn e LeaderboardItem ''rank'' (db s)")
      from a t True 1 have
        "?P (s\<lparr>db := d1, trace := trace s @
              [HasRunCall ?n, HasTableCall LeaderboardItem,
               HasColumnCall LeaderboardItem ''rank'',
               LogInfo (running_msg ?n),
               DropColumnCall LeaderboardItem ''rank''] @
              warned rank_failed_msg err1\<rparr>)"
        by (simp add: rank_mut setHasRun_shape write_visibleD case_prod_beta)
      then show ?thesis ..
    qed
  qed
next
  assume "ledger (db t) \<noteq> None"
  then show "db_hasCompleted drop_diagnostics_user_name
        (db (snd (drop_diagnostics_user (db_env ents) cfg t)))"
    by (rule db_diag_recorded)
next
  assume "ledger (db t) \<noteq> None"
  then show "db_hasCompleted drop_rank_column_name
        (db (snd (drop_rank_column (db_env ents) cfg t)))"
    by (rule db_rank_recorded)
qed

theorem unrecorded_migration_marks_ledger_witness:
  "\<not> db_hasCompleted drop_diagnostics_user_name legacy_db \<and>
   \<not> db_hasCompleted drop_rank_column_name legacy_db \<and>
   ledger legacy_db \<noteq> None \<and>
   db_hasCompleted drop_diagnostics_user_name
     (db (snd (drop_diagnostics_user (db_env current_entities) some_config (start legacy_db)))) \<and>
   db_hasCompleted drop_rank_column_name
     (db (snd (drop_rank_column (db_env current_entities) some_config (start legacy_db)))) \<and>
   (\<exists>s'. drop_rank_column (db_env current_entities) some_config (start legacy_db)
           = (None, setHasRun (db_env current_entities) drop_rank_column_name s'))"
  using unrecorded_migration_marks_ledger
          [of "db_env current_entities" "start legacy_db" some_config "start legacy_db" current_entities]
  by (auto simp add: db_hasCompleted_def start_def legacy_db_def)

text \<open>
  Claim C2 as stated fails where the ledger write fails: on a database without the ledger
  table \<open>setHasRun\<close> is called, and the ledger still does not record the name.
\<close>

theorem ledger_not_recorded_counterexample:
  "\<not> db_hasCompleted drop_rank_column_name no_ledger_db \<and>
   \<not> db_hasCompleted drop_rank_column_name
       (db (snd (drop_rank_column (db_env current_entities) some_config (start no_ledger_db)))) \<and>
   SetHasRunCall drop_rank_column_name
     \<in> set (trace (snd (drop_rank_column (db_env current_entities) some_config (start no_ledger_db))))"
  by (simp add: drop_rank_column_def call_defs db_defs Let_def no_ledger_db_def legacy_db_def
        start_def msg_defs)

text \<open>
  Claim C3. In the drop-diagnostics-user migration, when the ledger has no record, the column
  \<open>user_id\<close> exists and dropping the constraint fails with an error \<open>x\<close>: the warning
  for \<open>x\<close> is logged, the column drop is attempted next on the database the failed step
  left, \<open>setHasRun\<close> is called last, and \<open>nil\<close> is returned.
\<close>

theorem failed_constraint_drop_does_not_stop_migration:
  "\<not> hasCompleted e drop_diagnostics_user_name (db s) \<Longrightarrow>
   columnExists e Diagnostics ''user_id'' (db s) \<Longrightarrow>
   dropConstraint e Diagnostics ''fk_diagnostics_user'' (db s) = (Some x, d1) \<Longrightarrow>
   drop_diagnostics_user e cfg s =
     (let (err2, d2) = dropColumn e Diagnostics ''user_id'' d1;
          (err3, d3) = markCompleted e drop_diagnostics_user_name d2
      in (None, s\<lparr>db := d3,
            trace := trace s @
              [HasRunCall drop_diagnostics_user_name, HasColumnCall Diagnostics ''user_id'',
               LogInfo (running_msg drop_diagnostics_user_name),
               DropConstraintCall Diagnostics ''fk_diagnostics_user'',
               LogWarn (fk_failed_msg x),
               DropColumnCall Diagnostics ''user_id''] @
              warned user_id_failed_msg err2 @
              [SetHasRunCall drop_diagnostics_user_name] @
              warned (mark_failed_msg drop_diagnostics_user_name) err3\<rparr>))"
  by (simp add: diag_mut warned_def)

theorem failed_constraint_drop_does_not_stop_migration_witness:
  "\<not> db_hasCompleted drop_diagnostics_user_name scenario_c_db \<and>
   db_columnExists Diagnostics ''user_id'' scenario_c_db \<and>
   db_dropConstraint Diagnostics ''fk_diagnostics_user'' scenario_c_db
     = (Some ''no such constraint'', scenario_c_db) \<and>
   fst (drop_diagnostics_user (db_env current_entities) some_config (start scenario_c_db)) = None \<and>
   trace (snd (drop_diagnostics_user (db_env current_entities) some_config (start scenario_c_db)))
     = [HasRunCall drop_diagnostics_user_name, HasColumnCall Diagnostics ''user_id'',
        LogInfo (running_msg drop_diagnostics_user_name),
        DropConstraintCall Diagnostics ''fk_diagnostics_user'',
        LogWarn (fk_failed_msg ''no such constraint''),
        DropColumnCall Diagnostics ''user_id'',
        SetHasRunCall drop_diagnostics_user_name] \<and>
   \<not> db_columnExists Diagnostics ''user_id''
       (db (snd (drop_diagnostics_user (db_env current_entities) some_config (start scenario_c_db)))) \<and>
   db_hasCompleted drop_diagnostics_user_name
       (db (snd (drop_diagnostics_user (db_env current_entities) some_config (start scenario_c_db))))"
proof -
  have 1: "\<not> hasCompleted (db_env current_entities) drop_diagnostics_user_name (db (start scenario_c_db))"
    by (simp add: db_hasCompleted_def start_def scenario_c_db_def legacy_db_def)
  have 2: "columnExists (db_env current_entities) Diagnostics ''user_id'' (db (start scenario_c_db))"
    by (simp add: db_columnExists_def start_def scenario_c_db_def legacy_db_def)
  have 3: "dropConstraint (db_env current_entities) Diagnostics ''fk_diagnostics_user''
             (db (start scenario_c_db)) = (Some ''no such constraint'', scenario_c_db)"
    by (simp add: db_dropConstraint_def start_def scenario_c_db_def legacy_db_def)
  show ?thesis
    using failed_constraint_drop_does_not_stop_migration [OF 1 2 3, of some_config] 1 2 3
    by (simp add: start_def warned_def db_dropColumn_def db_markCompleted_def
          db_columnExists_def db_hasCompleted_def scenario_c_db_def legacy_db_def)
qed

text \<open>
  Claim C4. When the ledger has no record and the guard is false, the body calls no mutation:
  the events are the lookup, the guard's checks and the ledger mark, and the database
  returned is the one \<open>markCompleted\<close> produced from the initial one; the contract's outcome
  is \<open>NoopGuardFalse\<close>. On the reference database the tables are unchanged.
\<close>

theorem false_guard_changes_only_the_ledger:
  "(\<not> hasCompleted e drop_diagnostics_user_name (db s) \<and>
    \<not> columnExists e Diagnostics ''user_id'' (db s) \<longrightarrow>
      drop_diagnostics_user e cfg s =
        (None, s\<lparr>db := snd (markCompleted e drop_diagnostics_user_name (db s)),
                 trace := trace s @
                   [HasRunCall drop_diagnostics_user_name, HasColumnCall Diagnostics ''user_id'',
                    SetHasRunCall drop_diagnostics_user_name] @
                   warned (mark_failed_msg drop_diagnostics_user_name)
                     (fst (markCompleted e drop_diagnostics_user_name (db s)))\<rparr>) \<and>
      fst (execute_spec_diagnostics e (db s)) = NoopGuardFalse) \<and>
   (\<not> hasCompleted e drop_rank_column_name (db s) \<and>
    \<not> (tableExists e LeaderboardItem (db s) \<and> columnExists e LeaderboardItem ''rank'' (db s)) \<longrightarrow>
      drop_rank_column e cfg s =
        (None, s\<lparr>db := snd (markCompleted e drop_rank_column_name (db s)),
                 trace := trace s @
                   [HasRunCall drop_rank_column_name, HasTableCall LeaderboardItem] @
                   (if tableExists e LeaderboardItem (db s)
                    then [HasColumnCall LeaderboardItem ''rank''] else []) @
                   [SetHasRunCall drop_rank_column_name] @
                   warned (mark_failed_msg drop_rank_column_name)
                     (fst (markCompleted e drop_rank_column_name (db s)))\<rparr>) \<and>
      fst (execute_spec_rank e (db s)) = NoopGuardFalse) \<and>
   (\<not> db_hasCompleted drop_diagnostics_user_name (db t) \<and>
    \<not> db_columnExists Diagnostics ''user_id'' (db t) \<longrightarrow>
      tables (db (snd (drop_diagnostics_user (db_env ents) cfg t))) = tables (db t)) \<and>
   (\<not> db_hasCompleted drop_rank_column_name (db t) \<and>
    \<not> (db_tableExists LeaderboardItem (db t) \<and> db_columnExists LeaderboardItem ''rank'' (db t)) \<longrightarrow>
      tables (db (snd (drop_rank_column (db_env ents) cfg t))) = tables (db t))"
proof (intro conjI impI)
  assume "\<not> hasCompleted e drop_diagnostics_user_name (db s) \<and>
    \<not> columnExists e Diagnostics ''user_id'' (db s)"
  then show "drop_diagnostics_user e cfg s =
        (None, s\<lparr>db := snd (markCompleted e drop_diagnostics_user_name (db s)),
                 trace := trace s @
                   [HasRunCall drop_diagnostics_user_name, HasColumnCall Diagnostics ''user_id'',
                    SetHasRunCall drop_diagnostics_user_name] @
                   warned (mark_failed_msg drop_diagnostics_user_name)
                     (fst (markCompleted e drop_diagnostics_user_name (db s)))\<rparr>)"
    and "fst (execute_spec_diagnostics e (db s)) = NoopGuardFalse"
    by (simp_all add: diag_noop setHasRun_shape emit_def execute_spec_diagnostics_def execute_spec_def)
next
  assume a: "\<not> hasCompleted e drop_rank_column_name (db s) \<and>
    \<not> (tableExists e LeaderboardItem (db s) \<and> columnExists e LeaderboardItem ''rank'' (db s))"
  then show "fst (execute_spec_rank e (db s)) = NoopGuardFalse"
    by (simp add: execute_spec_rank_def execute_spec_def)
  show "drop_rank_column e cfg s =
        (None, s\<lparr>db := snd (markCompleted e drop_rank_column_name (db s)),
                 trace := trace s @
                   [HasRunCall drop_rank_column_name, HasTableCall LeaderboardItem] @
                   (if tableExists e LeaderboardItem (db s)
                    then [HasColumnCall LeaderboardItem ''rank''] else []) @
                   [SetHasRunCall drop_rank_column_name] @
                   warned (mark_failed_msg drop_rank_column_name)
                     (fst (markCompleted e drop_rank_column_name (db s)))\<rparr>)"
  proof (cases "tableExists e LeaderboardItem (db s)")
    case True
    with a show ?thesis by (simp add: rank_noop_column setHasRun_shape emit_def)
  next
    case False
    with a show ?thesis by (simp add: rank_noop_table setHasRun_shape emit_def)
  qed
next
  assume "\<not> db_hasCompleted drop_diagnostics_user_name (db t) \<and>
    \<not> db_columnExists Diagnostics ''user_id'' (db t)"
  then show "tables (db (snd (drop_diagnostics_user (db_env ents) cfg t))) = tables (db t)"
    by (simp add: diag_refines execute_spec_diagnostics_def execute_spec_def db_mark_tables)
next
  assume "\<not> db_hasCompleted drop_rank_column_name (db t) \<and>
    \<not> (db_tableExists LeaderboardItem (db t) \<and> db_columnExists LeaderboardItem ''rank'' (db t))"
  then show "tables (db (snd (drop_rank_column (db_env ents) cfg t))) = tables (db t)"
    by (simp add: rank_refines execute_spec_rank_def execute_spec_def db_mark_tables)
qed

theorem false_guard_changes_only_the_ledger_witness:
  "\<not> db_hasCompleted drop_diagnostics_user_name no_leaderboard_db \<and>
   \<not> db_columnExists Diagnostics ''user_id'' no_leaderboard_db \<and>
   \<not> db_hasCompleted drop_rank_column_name no_leaderboard_db \<and>
   \<not> db_tableExists LeaderboardItem no_leaderboard_db \<and>
   trace (snd (drop_diagnostics_user (db_env current_entities) some_config (start no_leaderboard_db)))
     = [HasRunCall drop_diagnostics_user_name, HasColumnCall Diagnostics ''user_id'',
        SetHasRunCall drop_diagnostics_user_name] \<and>
   trace (snd (drop_rank_column (db_env current_entities) some_config (start no_leaderboard_db)))
     = [HasRunCall drop_rank_column_name, HasTableCall LeaderboardItem,
        SetHasRunCall drop_rank_column_name] \<and>
   tables (db (snd (drop_diagnostics_user (db_env current_entities) some_config (start no_leaderboard_db))))
     = tables no_leaderboard_db \<and>
   tables (db (snd (drop_rank_column (db_env current_entities) some_config (start no_leaderboard_db))))
     = tables no_leaderboard_db \<and>
   db_hasCompleted drop_rank_column_name
     (db (snd (drop_rank_column (db_env current_entities) some_config (start no_leaderboard_db))))"
  using false_guard_changes_only_the_ledger
          [of "db_env current_entities" "start no_leaderboard_db" some_config
              "start no_leaderboard_db" current_entities]
  by (simp add: start_def no_leaderboard_db_def db_hasCompleted_def db_columnExists_def
        db_tableExists_def db_markCompleted_def warned_def)

text \<open>
  Claim C5. On every database state, with any behaviour of the handle, both migration
  bodies return \<open>nil\<close>. Where a sub-step or the ledger write fails, the failure is not
  returned: its warning is among the events the run added to the trace. Stated for the path
  that reaches the mutation and for the path where the guard is false, for each body.
\<close>

theorem bodies_never_return_an_error:
  "fst (drop_diagnostics_user e cfg s) = None \<and>
   fst (drop_rank_column e cfg s) = None \<and>
   (\<not> hasCompleted e drop_diagnostics_user_name (db s) \<and>
    columnExists e Diagnostics ''user_id'' (db s) \<longrightarrow>
      (let (err1, d1) = dropConstraint e Diagnostics ''fk_diagnostics_user'' (db s);
           (err2, d2) = dropColumn e Diagnostics ''user_id'' d1;
           (err3, d3) = markCompleted e drop_diagnostics_user_name d2
       in set (warned fk_failed_msg err1 @ warned user_id_failed_msg err2 @
               warned (mark_failed_msg drop_diagnostics_user_name) err3)
            \<subseteq> set (events_since s (snd (drop_diagnostics_user e cfg s))))) \<and>
   (\<not> hasCompleted e drop_rank_column_name (db s) \<and>
    tableExists e LeaderboardItem (db s) \<and> columnExists e LeaderboardItem ''rank'' (db s) \<longrightarrow>
      (let (err1, d1) = dropColumn e LeaderboardItem ''rank'' (db s);
           (err2, d2) = markCompleted e drop_rank_column_name d1
       in set (warned rank_failed_msg err1 @ warned (mark_failed_msg drop_rank_column_name) err2)
            \<subseteq> set (events_since s (snd (drop_rank_column e cfg s))))) \<and>
   (\<not> hasCompleted e drop_diagnostics_user_name (db s) \<and>
    \<not> columnExists e Diagnostics ''user_id'' (db s) \<longrightarrow>
      set (warned (mark_failed_msg drop_diagnostics_user_name)
             (fst (markCompleted e drop_diagnostics_user_name (db s))))
        \<subseteq> set (events_since s (snd (drop_diagnostics_user e cfg s)))) \<and>
   (\<not> hasCompleted e drop_rank_column_name (db s) \<and>
    \<not> (tableExists e LeaderboardItem (db s) \<and> columnExists e LeaderboardItem ''rank'' (db s)) \<longrightarrow>
      set (warned (mark_failed_msg drop_rank_column_name)
             (fst (markCompleted e drop_rank_column_name (db s))))
        \<subseteq> set (events_since s (snd (drop_rank_column e cfg s))))"
proof (intro conjI impI)
  show "fst (drop_diagnostics_user e cfg s) = None" by (simp add: diag_refines)
  show "fst (drop_rank_column e cfg s) = None" by (simp add: rank_refines)
next
  assume "\<not> hasCompleted e drop_diagnostics_user_name (db s) \<and>
    columnExists e Diagnostics ''user_id'' (db s)"
  then show "let (err1, d1) = dropConstraint e Diagnostics ''fk_diagnostics_user'' (db s);
           (err2, d2) = dropColumn e Diagnostics ''user_id'' d1;
           (err3, d3) = markCompleted e drop_diagnostics_user_name d2
       in set (warned fk_failed_msg err1 @ warned user_id_failed_msg err2 @
               warned (mark_failed_msg drop_diagnostics_user_name) err3)
            \<subseteq> set (events_since s (snd (drop_diagnostics_user e cfg s)))"
    by (auto simp: diag_mut events_since_def split: prod.splits)
next
  assume "\<not> hasCompleted e drop_rank_column_name (db s) \<and>
    tableExists e LeaderboardItem (db s) \<and> columnExists e LeaderboardItem ''rank'' (db s)"
  then show "let (err1, d1) = dropColumn e LeaderboardItem ''rank'' (db s);
           (err2, d2) = markCompleted e drop_rank_column_name d1
       in set (warned rank_failed_msg err1 @ warned (mark_failed_msg drop_rank_column_name) err2)
            \<subseteq> set (events_since s (snd (drop_rank_column e cfg s)))"
    by (auto simp: rank_mut events_since_def split: prod.splits)
next
  assume "\<not> hasCompleted e drop_diagnostics_user_name (db s) \<and>
    \<not> columnExists e Diagnostics ''user_id'' (db s)"
  then show "set (warned (mark_failed_msg drop_diagnostics_user_name)
             (fst (markCompleted e drop_diagnostics_user_name (db s))))
        \<subseteq> set (events_since s (snd (drop_diagnostics_user e cfg s)))"
    by (auto simp: diag_noop setHasRun_shape emit_def events_since_def)
next
  assume a: "\<not> hasCompleted e drop_rank_column_name (db s) \<and>
    \<not> (tableExists e LeaderboardItem (db s) \<and> columnExists e LeaderboardItem ''rank'' (db s))"
  show "set (warned (mark_failed_msg drop_rank_column_name)
             (fst (markCompleted e drop_rank_column_name (db s))))
        \<subseteq> set (events_since s (snd (drop_rank_column e cfg s)))"
  proof (cases "tableExists e LeaderboardItem (db s)")
    case True
    with a show ?thesis
      by (auto simp: rank_noop_column setHasRun_shape emit_def events_since_def)
  next
    case False
    with a show ?thesis
      by (auto simp: rank_noop_table setHasRun_shape emit_def events_since_def)
  qed
qed

theorem bodies_never_return_an_error_witness:
  "fst (drop_diagnostics_user failing_env some_config (start ())) = None \<and>
   fst (drop_rank_column failing_env some_config (start ())) = None \<and>
   LogWarn (fk_failed_msg ''denied'')
     \<in> set (trace (snd (drop_diagnostics_user failing_env some_config (start ())))) \<and>
   LogWarn (user_id_failed_msg ''denied'')
     \<in> set (trace (snd (drop_diagnostics_user failing_env some_config (start ())))) \<and>
   LogWarn (mark_failed_msg drop_diagnostics_user_name ''read-only'')
     \<in> set (trace (snd (drop_diagnostics_user failing_env some_config (start ())))) \<and>
   LogWarn (rank_failed_msg ''denied'')
     \<in> set (trace (snd (drop_rank_column failing_env some_config (start ())))) \<and>
   LogWarn (mark_failed_msg drop_rank_column_name ''read-only'')
     \<in> set (trace (snd (drop_rank_column failing_env some_config (start ())))) \<and>
   \<not> db_hasCompleted drop_diagnostics_user_name no_leaderboard_db \<and>
   \<not> db_columnExists Diagnostics ''user_id'' no_leaderboard_db \<and>
   \<not> db_tableExists LeaderboardItem no_leaderboard_db \<and>
   fst (drop_rank_column (db_env current_entities) some_config (start no_leaderboard_db)) = None"
  using bodies_never_return_an_error [of failing_env some_config "start ()"]
        bodies_never_return_an_error [of "db_env current_entities" some_config "start no_leaderboard_db"]
  by (simp add: failing_env_def start_def events_since_def warned_def no_leaderboard_db_def
        db_hasCompleted_def db_columnExists_def db_tableExists_def)

text \<open>
  Claim C6. Whenever the drop-diagnostics-user migration reaches its mutation step, the
  constraint drop and the column drop are each attempted exactly once, the constraint drop
  first; the column drop is applied to whatever database the constraint drop left, whether
  or not it failed.
\<close>

theorem constraint_drop_precedes_column_drop:
  "\<not> hasCompleted e drop_diagnostics_user_name (db s) \<Longrightarrow>
   columnExists e Diagnostics ''user_id'' (db s) \<Longrightarrow>
   precedes (DropConstraintCall Diagnostics ''fk_diagnostics_user'')
            (DropColumnCall Diagnostics ''user_id'')
            (events_since s (snd (drop_diagnostics_user e cfg s))) \<and>
   count_list (events_since s (snd (drop_diagnostics_user e cfg s)))
     (DropConstraintCall Diagnostics ''fk_diagnostics_user'') = 1 \<and>
   count_list (events_since s (snd (drop_diagnostics_user e cfg s)))
     (DropColumnCall Diagnostics ''user_id'') = 1 \<and>
   db (snd (drop_diagnostics_user e cfg s)) =
     snd (markCompleted e drop_diagnostics_user_name
       (snd (dropColumn e Diagnostics ''user_id''
         (snd (dropConstraint e Diagnostics ''fk_diagnostics_user'' (db s))))))"
  by (simp add: diag_mut events_since_def precedes_def warned_def case_prod_beta
        split: option.splits)

theorem constraint_drop_precedes_column_drop_witness:
  "\<not> db_hasCompleted drop_diagnostics_user_name legacy_db \<and>
   db_columnExists Diagnostics ''user_id'' legacy_db \<and>
   db_constraintExists Diagnostics ''fk_diagnostics_user'' legacy_db \<and>
   precedes (DropConstraintCall Diagnostics ''fk_diagnostics_user'')
            (DropColumnCall Diagnostics ''user_id'')
            (trace (snd (drop_diagnostics_user (db_env current_entities) some_config (start legacy_db)))) \<and>
   \<not> db_constraintExists Diagnostics ''fk_diagnostics_user''
       (db (snd (drop_diagnostics_user (db_env current_entities) some_config (start legacy_db)))) \<and>
   \<not> db_columnExists Diagnostics ''user_id''
       (db (snd (drop_diagnostics_user (db_env current_entities) some_config (start legacy_db))))"
proof -
  have 1: "\<not> hasCompleted (db_env current_entities) drop_diagnostics_user_name (db (start legacy_db))"
    by (simp add: db_hasCompleted_def start_def legacy_db_def)
  have 2: "columnExists (db_env current_entities) Diagnostics ''user_id'' (db (start legacy_db))"
    by (simp add: db_columnExists_def start_def legacy_db_def)
  show ?thesis
    using constraint_drop_precedes_column_drop [OF 1 2, of some_config] 1 2
    by (simp add: start_def events_since_def db_dropColumn_def db_dropConstraint_def
          db_markCompleted_def db_columnExists_def db_constraintExists_def db_hasCompleted_def
          legacy_db_def)
qed

text \<open>
  Claim C7, as amended. Both \<open>init\<close> functions call \<open>registerPostMigration\<close>: whichever
  runs first, the pre-phase list is empty and both migrations are in the post-phase list.
  The runner executes the pre-phase list, then the schema sync, then the post-phase list, so
  the sync comes before the ledger lookup of either migration. On a database where nothing
  exists yet, with entity definitions lacking the two legacy columns, the run makes exactly
  the calls listed below: both guards are false, nothing is dropped, the tables are those
  the sync created, and the ledger holds both names.
\<close>

theorem both_migrations_run_after_the_sync:
  "preMigrations (registry_after_init e) = [] \<and>
   map name (postMigrations (registry_after_init e)) =
     [drop_diagnostics_user_name, drop_rank_column_name] \<and>
   preMigrations (registry_after_init_swapped e) = [] \<and>
   map name (postMigrations (registry_after_init_swapped e)) =
     [drop_rank_column_name, drop_diagnostics_user_name] \<and>
   Run e r cfg s =
     run_migrations (postMigrations r) cfg
       (AutoMigrate e (run_migrations (preMigrations r) cfg (emit RunCall s))) \<and>
   precedes AutoMigrateCall (HasRunCall drop_diagnostics_user_name)
     (events_since s (Run e (registry_after_init e) cfg s)) \<and>
   precedes AutoMigrateCall (HasRunCall drop_rank_column_name)
     (events_since s (Run e (registry_after_init e) cfg s)) \<and>
   (''rank'' \<notin> set (ents LeaderboardItem) \<and> ''user_id'' \<notin> set (ents Diagnostics) \<longrightarrow>
      trace (Run (db_env ents) (registry_after_init (db_env ents)) cfg (start empty_db)) =
        [RunCall, AutoMigrateCall,
         HasRunCall drop_diagnostics_user_name, HasColumnCall Diagnostics ''user_id'',
         SetHasRunCall drop_diagnostics_user_name,
         OutcomeLogged drop_diagnostics_user_name None,
         HasRunCall drop_rank_column_name, HasTableCall LeaderboardItem,
         HasColumnCall LeaderboardItem ''rank'',
         SetHasRunCall drop_rank_column_name,
         OutcomeLogged drop_rank_column_name None] \<and>
      tables (db (Run (db_env ents) (registry_after_init (db_env ents)) cfg (start empty_db))) =
        tables (db_syncSchema ents empty_db) \<and>
      db_hasCompleted drop_diagnostics_user_name
        (db (Run (db_env ents) (registry_after_init (db_env ents)) cfg (start empty_db))) \<and>
      db_hasCompleted drop_rank_column_name
        (db (Run (db_env ents) (registry_after_init (db_env ents)) cfg (start empty_db))))"
proof -
  obtain evs1 evs2 where t:
    "trace (Run e (registry_after_init e) cfg s) =
       trace s @ [RunCall, AutoMigrateCall, HasRunCall drop_diagnostics_user_name] @ evs1 @
       [OutcomeLogged drop_diagnostics_user_name None, HasRunCall drop_rank_column_name] @ evs2 @
       [OutcomeLogged drop_rank_column_name None]"
    using Run_trace by blast
  have order:
    "precedes AutoMigrateCall (HasRunCall drop_diagnostics_user_name)
       (events_since s (Run e (registry_after_init e) cfg s))"
    "precedes AutoMigrateCall (HasRunCall drop_rank_column_name)
       (events_since s (Run e (registry_after_init e) cfg s))"
    by (simp_all add: events_since_def t precedes_def)
  have fresh:
    "''rank'' \<notin> set (ents LeaderboardItem) \<and> ''user_id'' \<notin> set (ents Diagnostics) \<longrightarrow>
      trace (Run (db_env ents) (registry_after_init (db_env ents)) cfg (start empty_db)) =
        [RunCall, AutoMigrateCall,
         HasRunCall drop_diagnostics_user_name, HasColumnCall Diagnostics ''user_id'',
         SetHasRunCall drop_diagnostics_user_name,
         OutcomeLogged drop_diagnostics_user_name None,
         HasRunCall drop_rank_column_name, HasTableCall LeaderboardItem,
         HasColumnCall LeaderboardItem ''rank'',
         SetHasRunCall drop_rank_column_name,
         OutcomeLogged drop_rank_column_name None] \<and>
      tables (db (Run (db_env ents) (registry_after_init (db_env ents)) cfg (start empty_db))) =
        tables (db_syncSchema ents empty_db) \<and>
      db_hasCompleted drop_diagnostics_user_name
        (db (Run (db_env ents) (registry_after_init (db_env ents)) cfg (start empty_db))) \<and>
      db_hasCompleted drop_rank_column_name
        (db (Run (db_env ents) (registry_after_init (db_env ents)) cfg (start empty_db)))"
    by (simp add: Run_fresh db_hasCompleted_def msg_defs)
  have run: "Run e r cfg s =
     run_migrations (postMigrations r) cfg
       (AutoMigrate e (run_migrations (preMigrations r) cfg (emit RunCall s)))"
    by (simp add: Run_def)
  from order fresh run show ?thesis
    by (simp add: registry_after_init_lists)
qed

theorem both_migrations_run_after_the_sync_witness:
  "''rank'' \<notin> set (current_entities LeaderboardItem) \<and>
   ''user_id'' \<notin> set (current_entities Diagnostics) \<and>
   trace (Run (db_env current_entities) (registry_after_init (db_env current_entities))
            some_config (start empty_db)) =
     [RunCall, AutoMigrateCall,
      HasRunCall drop_diagnostics_user_name, HasColumnCall Diagnostics ''user_id'',
      SetHasRunCall drop_diagnostics_user_name,
      OutcomeLogged drop_diagnostics_user_name None,
      HasRunCall drop_rank_column_name, HasTableCall LeaderboardItem,
      HasColumnCall LeaderboardItem ''rank'',
      SetHasRunCall drop_rank_column_name,
      OutcomeLogged drop_rank_column_name None] \<and>
   db_hasCompleted drop_diagnostics_user_name
     (db (Run (db_env current_entities) (registry_after_init (db_env current_entities))
            some_config (start empty_db))) \<and>
   db_hasCompleted drop_rank_column_name
     (db (Run (db_env current_entities) (registry_after_init (db_env current_entities))
            some_config (start empty_db)))"
  using both_migrations_run_after_the_sync
          [where e = "db_env current_entities" and ents = current_entities and cfg = some_config
             and r = empty_registry and s = "start empty_db"]
  by (simp add: current_entities_def)

text \<open>
  Claim C7 as stated has the drop-rank-column migration registered in the pre-phase; after
  both \<open>init\<close> functions it is in the post-phase list and not in the pre-phase list.
\<close>

theorem drop_rank_column_not_pre_phase_counterexample:
  "drop_rank_column_name
     \<notin> set (map name (preMigrations (registry_after_init (db_env current_entities)))) \<and>
   drop_rank_column_name
     \<in> set (map name (postMigrations (registry_after_init (db_env current_entities))))"
  by (simp add: registry_after_init_def init_drop_rank_column_def init_drop_diagnostics_user_def
        registerPostMigration_def empty_registry_def)

text \<open>
  Claim C8. The step of \<open>main\<close> that migrates the schema enters \<open>Run\<close> exactly when
  \<open>SkipMigrations\<close> is false. When the flag is true the state is returned as it was: no
  event at all, hence no ledger lookup and no migration; when it is false, the ledger is
  consulted for both registered migrations.
\<close>

theorem migration_pass_runs_iff_not_skipped:
  "main_migrate e r cfg s = (if SkipMigrations cfg then s else Run e r cfg s) \<and>
   (SkipMigrations cfg \<longrightarrow> events_since s (main_migrate e r cfg s) = []) \<and>
   (RunCall \<in> set (events_since s (main_migrate e (registry_after_init e) cfg s))
      \<longleftrightarrow> \<not> SkipMigrations cfg) \<and>
   (HasRunCall drop_diagnostics_user_name
      \<in> set (events_since s (main_migrate e (registry_after_init e) cfg s))
      \<longleftrightarrow> \<not> SkipMigrations cfg) \<and>
   (HasRunCall drop_rank_column_name
      \<in> set (events_since s (main_migrate e (registry_after_init e) cfg s))
      \<longleftrightarrow> \<not> SkipMigrations cfg)"
proof -
  obtain evs1 evs2 where t:
    "trace (Run e (registry_after_init e) cfg s) =
       trace s @ [RunCall, AutoMigrateCall, HasRunCall drop_diagnostics_user_name] @ evs1 @
       [OutcomeLogged drop_diagnostics_user_name None, HasRunCall drop_rank_column_name] @ evs2 @
       [OutcomeLogged drop_rank_column_name None]"
    using Run_trace by blast
  show ?thesis
    by (simp add: main_migrate_def events_since_def t)
qed

theorem migration_pass_runs_iff_not_skipped_witness:
  "SkipMigrations \<lparr>SkipMigrations = True\<rparr> \<and>
   main_migrate (db_env current_entities) (registry_after_init (db_env current_entities))
       \<lparr>SkipMigrations = True\<rparr> (start legacy_db) = start legacy_db \<and>
   \<not> SkipMigrations some_config \<and>
   RunCall \<in> set (trace (main_migrate (db_env current_entities)
       (registry_after_init (db_env current_entities)) some_config (start legacy_db))) \<and>
   HasRunCall drop_rank_column_name \<in> set (trace (main_migrate (db_env current_entities)
       (registry_after_init (db_env current_entities)) some_config (start legacy_db)))"
  using migration_pass_runs_iff_not_skipped
          [where e = "db_env current_entities" and r = "registry_after_init (db_env current_entities)"
             and cfg = "\<lparr>SkipMigrations = True\<rparr>" and s = "start legacy_db"]
        migration_pass_runs_iff_not_skipped
          [where e = "db_env current_entities" and r = "registry_after_init (db_env current_entities)"
             and cfg = some_config and s = "start legacy_db"]
  by (auto simp add: some_config_def start_def events_since_def)

text \<open>
  Claim C9. The guard of the drop-rank-column migration is \<open>HasTable && HasColumn\<close>, evaluated
  left to right: the column drop is attempted exactly when both hold, and \<open>HasColumn\<close> is
  called exactly when the table exists. Without the table the result does not depend on the
  column check at all, nothing is dropped, and \<open>setHasRun\<close> is still called.
\<close>

theorem rank_guard_short_circuits:
  "(\<not> hasCompleted e drop_rank_column_name (db s) \<and> \<not> tableExists e LeaderboardItem (db s) \<longrightarrow>
      drop_rank_column e cfg s =
        (None, s\<lparr>db := snd (markCompleted e drop_rank_column_name (db s)),
                 trace := trace s @
                   [HasRunCall drop_rank_column_name, HasTableCall LeaderboardItem,
                    SetHasRunCall drop_rank_column_name] @
                   warned (mark_failed_msg drop_rank_column_name)
                     (fst (markCompleted e drop_rank_column_name (db s)))\<rparr>) \<and>
      drop_rank_column (e\<lparr>columnExists := q\<rparr>) cfg s = drop_rank_column e cfg s) \<and>
   (DropColumnCall LeaderboardItem ''rank'' \<in> set (events_since s (snd (drop_rank_column e cfg s)))
      \<longleftrightarrow> \<not> hasCompleted e drop_rank_column_name (db s) \<and>
          tableExists e LeaderboardItem (db s) \<and> columnExists e LeaderboardItem ''rank'' (db s)) \<and>
   (HasColumnCall LeaderboardItem ''rank'' \<in> set (events_since s (snd (drop_rank_column e cfg s)))
      \<longleftrightarrow> \<not> hasCompleted e drop_rank_column_name (db s) \<and> tableExists e LeaderboardItem (db s))"
proof (intro conjI impI)
  assume a: "\<not> hasCompleted e drop_rank_column_name (db s) \<and> \<not> tableExists e LeaderboardItem (db s)"
  then show "drop_rank_column e cfg s =
        (None, s\<lparr>db := snd (markCompleted e drop_rank_column_name (db s)),
                 trace := trace s @
                   [HasRunCall drop_rank_column_name, HasTableCall LeaderboardItem,
                    SetHasRunCall drop_rank_column_name] @
                   warned (mark_failed_msg drop_rank_column_name)
                     (fst (markCompleted e drop_rank_column_name (db s)))\<rparr>)"
    by (simp add: rank_noop_table setHasRun_shape emit_def)
  from a show "drop_rank_column (e\<lparr>columnExists := q\<rparr>) cfg s = drop_rank_column e cfg s"
    by (simp add: rank_noop_table setHasRun_shape emit_def)
next
  show "DropColumnCall LeaderboardItem ''rank'' \<in> set (events_since s (snd (drop_rank_column e cfg s)))
      \<longleftrightarrow> \<not> hasCompleted e drop_rank_column_name (db s) \<and>
          tableExists e LeaderboardItem (db s) \<and> columnExists e LeaderboardItem ''rank'' (db s)"
    by (cases "hasCompleted e drop_rank_column_name (db s)";
        cases "tableExists e LeaderboardItem (db s)";
        cases "columnExists e LeaderboardItem ''rank'' (db s)")
       (simp_all add: rank_skip rank_noop_table rank_noop_column rank_mut setHasRun_shape emit_def
          events_since_def warned_def case_prod_beta split: option.splits)
next
  show "HasColumnCall LeaderboardItem ''rank'' \<in> set (events_since s (snd (drop_rank_column e cfg s)))
      \<longleftrightarrow> \<not> hasCompleted e drop_rank_column_name (db s) \<and> tableExists e LeaderboardItem (db s)"
    by (cases "hasCompleted e drop_rank_column_name (db s)";
        cases "tableExists e LeaderboardItem (db s)";
        cases "columnExists e LeaderboardItem ''rank'' (db s)")
       (simp_all add: rank_skip rank_noop_table rank_noop_column rank_mut setHasRun_shape emit_def
          events_since_def warned_def case_prod_beta split: option.splits)
qed

theorem rank_guard_short_circuits_witness:
  "\<not> db_hasCompleted drop_rank_column_name no_leaderboard_db \<and>
   \<not> db_tableExists LeaderboardItem no_leaderboard_db \<and>
   trace (snd (drop_rank_column (db_env current_entities) some_config (start no_leaderboard_db)))
     = [HasRunCall drop_rank_column_name, HasTableCall LeaderboardItem,
        SetHasRunCall drop_rank_column_name] \<and>
   db_hasCompleted drop_rank_column_name
     (db (snd (drop_rank_column (db_env current_entities) some_config (start no_leaderboard_db)))) \<and>
   drop_rank_column ((db_env current_entities)\<lparr>columnExists := (\<lambda>m c d. True)\<rparr>) some_config
       (start no_leaderboard_db)
     = drop_rank_column (db_env current_entities) some_config (start no_leaderboard_db) \<and>
   DropColumnCall LeaderboardItem ''rank''
     \<notin> set (trace (snd (drop_rank_column (db_env current_entities) some_config (start no_leaderboard_db)))) \<and>
   DropColumnCall LeaderboardItem ''rank''
     \<in> set (trace (snd (drop_rank_column (db_env current_entities) some_config (start legacy_db))))"
  using rank_guard_short_circuits
          [where e = "db_env current_entities" and s = "start no_leaderboard_db" and cfg = some_config
             and q = "\<lambda>m c d. True"]
        rank_guard_short_circuits
          [where e = "db_env current_entities" and s = "start legacy_db" and cfg = some_config
             and q = "\<lambda>m c d. True"]
  by (simp add: start_def no_leaderboard_db_def legacy_db_def db_hasCompleted_def
        db_tableExists_def db_columnExists_def db_markCompleted_def warned_def events_since_def)

text \<open>
  Claim C10. The drop-diagnostics-user migration never asks whether a constraint exists: its
  result does not depend on that predicate and no such call is in its trace. It attempts to
  drop \<open>fk_diagnostics_user\<close> exactly when the ledger has no record and \<open>user_id\<close> exists,
  and a failure of that attempt only leaves a warning.
\<close>

theorem constraint_existence_is_never_consulted:
  "drop_diagnostics_user (e\<lparr>constraintExists := q\<rparr>) cfg s = drop_diagnostics_user e cfg s \<and>
   (\<forall>m c. HasConstraintCall m c \<notin> set (events_since s (snd (drop_diagnostics_user e cfg s)))) \<and>
   (DropConstraintCall Diagnostics ''fk_diagnostics_user''
      \<in> set (events_since s (snd (drop_diagnostics_user e cfg s)))
      \<longleftrightarrow> \<not> hasCompleted e drop_diagnostics_user_name (db s) \<and>
          columnExists e Diagnostics ''user_id'' (db s)) \<and>
   (\<not> hasCompleted e drop_diagnostics_user_name (db s) \<and>
    columnExists e Diagnostics ''user_id'' (db s) \<longrightarrow>
      set (warned fk_failed_msg (fst (dropConstraint e Diagnostics ''fk_diagnostics_user'' (db s))))
        \<subseteq> set (events_since s (snd (drop_diagnostics_user e cfg s))))"
proof (intro conjI impI allI)
  show "drop_diagnostics_user (e\<lparr>constraintExists := q\<rparr>) cfg s = drop_diagnostics_user e cfg s"
    by (simp add: drop_diagnostics_user_def call_defs)
next
  fix m c
  show "HasConstraintCall m c \<notin> set (events_since s (snd (drop_diagnostics_user e cfg s)))"
    by (cases "hasCompleted e drop_diagnostics_user_name (db s)";
        cases "columnExists e Diagnostics ''user_id'' (db s)")
       (simp_all add: diag_skip diag_noop diag_mut setHasRun_shape emit_def
          events_since_def warned_def case_prod_beta split: option.splits)
next
  show "DropConstraintCall Diagnostics ''fk_diagnostics_user''
      \<in> set (events_since s (snd (drop_diagnostics_user e cfg s)))
      \<longleftrightarrow> \<not> hasCompleted e drop_diagnostics_user_name (db s) \<and>
          columnExists e Diagnostics ''user_id'' (db s)"
    by (cases "hasCompleted e drop_diagnostics_user_name (db s)";
        cases "columnExists e Diagnostics ''user_id'' (db s)")
       (simp_all add: diag_skip diag_noop diag_mut setHasRun_shape emit_def
          events_since_def warned_def case_prod_beta split: option.splits)
next
  assume "\<not> hasCompleted e drop_diagnostics_user_name (db s) \<and>
    columnExists e Diagnostics ''user_id'' (db s)"
  then show "set (warned fk_failed_msg (fst (dropConstraint e Diagnostics ''fk_diagnostics_user'' (db s))))
        \<subseteq> set (events_since s (snd (drop_diagnostics_user e cfg s)))"
    by (auto simp: diag_mut events_since_def case_prod_beta)
qed

theorem constraint_existence_is_never_consulted_witness:
  "\<not> db_hasCompleted drop_diagnostics_user_name scenario_c_db \<and>
   db_columnExists Diagnostics ''user_id'' scenario_c_db \<and>
   \<not> db_constraintExists Diagnostics ''fk_diagnostics_user'' scenario_c_db \<and>
   DropConstraintCall Diagnostics ''fk_diagnostics_user''
     \<in> set (trace (snd (drop_diagnostics_user (db_env current_entities) some_config (start scenario_c_db)))) \<and>
   LogWarn (fk_failed_msg ''no such constraint'')
     \<in> set (trace (snd (drop_diagnostics_user (db_env current_entities) some_config (start scenario_c_db)))) \<and>
   HasConstraintCall Diagnostics ''fk_diagnostics_user''
     \<notin> set (trace (snd (drop_diagnostics_user (db_env current_entities) some_config (start scenario_c_db))))"
  using constraint_existence_is_never_consulted
          [where e = "db_env current_entities" and q = "\<lambda>m c d. True" and cfg = some_config
             and s = "start scenario_c_db"]
  by (simp add: start_def scenario_c_db_def legacy_db_def db_hasCompleted_def
        db_columnExists_def db_constraintExists_def db_dropConstraint_def warned_def events_since_def)

end
